theory Spec2Isabelle
  imports Main
begin

section \<open>The user service: requests, rows and responses\<close>

text \<open>
  The service of \<^verbatim>\<open>src/app/routes.py\<close> maps six HTTP endpoints to reads and writes of one
  table. Each handler is embedded as a function from the database state (and the request)
  to the new database state and the response. The handlers read \<^verbatim>\<open>request.json\<close>, the
  already parsed JSON body; it is the \<open>req\<close> argument here. JSON numbers are kept as
  integers: no handler computes with them.
\<close>

datatype json =
    JNull
  | JBool bool
  | JInt int
  | JStr string
  | JArr "json list"
  | JObj "(string \<times> json) list"

text \<open>
  A response is a status code and a payload. \<^verbatim>\<open>jsonify(x)\<close> is \<open>Json x\<close>, the empty string
  returned by the delete handler is \<open>Empty\<close>, and \<open>Not_found_page\<close> is the page of the
  framework when \<^verbatim>\<open>get_or_404\<close> aborts the request.
\<close>

datatype content = Json json | Empty | Not_found_page

record response =
  status :: nat
  payload :: content

definition jsonify :: "json \<Rightarrow> response" where
  "jsonify x = \<lparr>status = 200, payload = Json x\<rparr>"

definition with_status :: "response \<Rightarrow> nat \<Rightarrow> response" where
  "with_status r c = r\<lparr>status := c\<rparr>"

definition not_found :: response where
  "not_found = \<lparr>status = 404, payload = Not_found_page\<rparr>"

subsection \<open>The persistence entity and the table\<close>

text \<open>
  Modelled from the spec: the class \<^verbatim>\<open>User\<close> of \<^verbatim>\<open>app/models.py\<close> and the table behind
  \<^verbatim>\<open>db.session\<close> are not among the sources. The spec (section 3) gives the entity the columns
  id (integer, server-generated, unique), username and email. An attribute of the Python
  object and a column of the row can hold no value, so both text columns are options;
  that every persisted row has a value in both is the invariant \<open>non_null\<close> below, not
  a property of the type.
\<close>

record user =
  user_id :: int
  username :: "string option"
  email :: "string option"

text \<open>
  Modelled from the spec: the table is the list of its rows in insertion order together
  with the counter from which the server generates the next id (the database of
  \<^verbatim>\<open>src/config.py\<close> is MySQL, whose generated keys start at 1 and count upwards).
\<close>

record database =
  rows :: "user list"
  next_id :: int

definition empty_db :: database where
  "empty_db = \<lparr>rows = [], next_id = 1\<rparr>"

text \<open>\<^verbatim>\<open>User.query.all()\<close> and \<^verbatim>\<open>User.query.get(i)\<close>: selection by primary key.\<close>

definition query_all :: "database \<Rightarrow> user list" where
  "query_all db = rows db"

definition query_get :: "database \<Rightarrow> int \<Rightarrow> user option" where
  "query_get db i = find (\<lambda>r. user_id r = i) (rows db)"

text \<open>\<^verbatim>\<open>User.query.get_or_404(i)\<close>: the row, or the request ends with the 404 response.\<close>

definition get_or_404 :: "database \<Rightarrow> int \<Rightarrow> response + user" where
  "get_or_404 db i = (case query_get db i of None \<Rightarrow> Inl not_found | Some u \<Rightarrow> Inr u)"

text \<open>
  \<^verbatim>\<open>db.session.add(user); db.session.commit()\<close>: the new row gets the next generated id
  and is appended; the object the handler holds then carries that id.
\<close>

definition session_add :: "database \<Rightarrow> string option \<Rightarrow> string option \<Rightarrow> database \<times> user" where
  "session_add db un em =
     (let u = \<lparr>user_id = next_id db, username = un, email = em\<rparr>
      in (db\<lparr>rows := rows db @ [u], next_id := next_id db + 1\<rparr>, u))"

text \<open>
  \<^verbatim>\<open>db.session.commit()\<close> after the attributes of a loaded object were assigned: the two
  columns of the rows with its primary key are written.
\<close>

definition session_flush :: "database \<Rightarrow> user \<Rightarrow> database" where
  "session_flush db u =
     db\<lparr>rows := map (\<lambda>r. if user_id r = user_id u
                           then r\<lparr>username := username u, email := email u\<rparr> else r) (rows db)\<rparr>"

text \<open>\<^verbatim>\<open>db.session.delete(user); db.session.commit()\<close>: the rows with its primary key go.\<close>

definition session_delete :: "database \<Rightarrow> user \<Rightarrow> database" where
  "session_delete db u = db\<lparr>rows := filter (\<lambda>r. user_id r \<noteq> user_id u) (rows db)\<rparr>"

subsection \<open>The schema validator\<close>

text \<open>
  Modelled from the spec: the class \<^verbatim>\<open>UserSchema\<close> of \<^verbatim>\<open>app/models.py\<close> is not among the
  sources. By the spec (sections 3, 4.1 and 7) it takes an untyped payload and gives
  either the validated pair (username, email) or a field-level error map: username is a
  required string, email a required string in an email format, and a payload that does
  not conform to this field set is refused. The spec does not say what an email format
  is, so the format is the parameter \<open>fmt\<close>. The messages, and the key \<^verbatim>\<open>_schema\<close> for a
  payload that is not an object, are the defaults of the marshmallow library whose
  \<^verbatim>\<open>ValidationError\<close> the handlers catch. In an object the first binding of a key counts.
\<close>

record user_data =
  ud_username :: string
  ud_email :: string

type_synonym messages = "(string \<times> string list) list"

fun load_string :: "json option \<Rightarrow> string list + string" where
  "load_string None = Inl [''Missing data for required field.'']"
| "load_string (Some JNull) = Inl [''Field may not be null.'']"
| "load_string (Some (JStr s)) = Inr s"
| "load_string (Some _) = Inl [''Not a valid string.'']"

fun load_email :: "(string \<Rightarrow> bool) \<Rightarrow> json option \<Rightarrow> string list + string" where
  "load_email fmt None = Inl [''Missing data for required field.'']"
| "load_email fmt (Some JNull) = Inl [''Field may not be null.'']"
| "load_email fmt (Some (JStr s)) =
     (if fmt s then Inr s else Inl [''Not a valid email address.''])"
| "load_email fmt (Some _) = Inl [''Not a valid email address.'']"

definition field_errors :: "string \<Rightarrow> string list + string \<Rightarrow> messages" where
  "field_errors f r = (case r of Inl ms \<Rightarrow> [(f, ms)] | Inr _ \<Rightarrow> [])"

definition unknown_fields :: "(string \<times> json) list \<Rightarrow> messages" where
  "unknown_fields kvs =
     map (\<lambda>k. (k, [''Unknown field.'']))
       (filter (\<lambda>k. k \<noteq> ''username'' \<and> k \<noteq> ''email'') (remdups (map fst kvs)))"

definition user_schema_load :: "(string \<Rightarrow> bool) \<Rightarrow> json \<Rightarrow> messages + user_data" where
  "user_schema_load fmt req =
     (case req of
        JObj kvs \<Rightarrow>
          (let u = load_string (map_of kvs ''username'');
               e = load_email fmt (map_of kvs ''email'');
               errs = field_errors ''username'' u @ field_errors ''email'' e @ unknown_fields kvs
           in case (u, e, errs) of
                (Inr un, Inr em, []) \<Rightarrow> Inr \<lparr>ud_username = un, ud_email = em\<rparr>
              | _ \<Rightarrow> Inl errs)
      | _ \<Rightarrow> Inl [(''_schema'', [''Invalid input type.''])])"

text \<open>The value of a field of the payload, \<^verbatim>\<open>req.get(k)\<close>; only statements use it.\<close>

definition json_get :: "json \<Rightarrow> string \<Rightarrow> json option" where
  "json_get req k = (case req of JObj kvs \<Rightarrow> map_of kvs k | _ \<Rightarrow> None)"

text \<open>\<^verbatim>\<open>err.messages\<close> as JSON, and \<^verbatim>\<open>user_schema.dump(user)\<close> (spec, section 6).\<close>

definition messages_json :: "messages \<Rightarrow> json" where
  "messages_json errs = JObj (map (\<lambda>(f, ms). (f, JArr (map JStr ms))) errs)"

definition json_of_text :: "string option \<Rightarrow> json" where
  "json_of_text t = (case t of None \<Rightarrow> JNull | Some s \<Rightarrow> JStr s)"

definition user_schema_dump :: "user \<Rightarrow> json" where
  "user_schema_dump u =
     JObj [(''id'', JInt (user_id u)),
           (''username'', json_of_text (username u)),
           (''email'', json_of_text (email u))]"

definition users_schema_dump :: "user list \<Rightarrow> json" where
  "users_schema_dump us = JArr (map user_schema_dump us)"

subsection \<open>The request handlers\<close>

definition health_check :: response where
  "health_check =
     jsonify (JObj [(''status'', JStr ''healthy''), (''service'', JStr ''microservice-app'')])"

definition get_users :: "database \<Rightarrow> response" where
  "get_users db = jsonify (users_schema_dump (query_all db))"

definition validation_error :: "messages \<Rightarrow> response" where
  "validation_error errs = with_status (jsonify (JObj [(''errors'', messages_json errs)])) 400"

definition create_user :: "(string \<Rightarrow> bool) \<Rightarrow> database \<Rightarrow> json \<Rightarrow> database \<times> response" where
  "create_user fmt db req =
     (case user_schema_load fmt req of
        Inl errs \<Rightarrow> (db, validation_error errs)
      | Inr d \<Rightarrow>
          (let (db', u) = session_add db (Some (ud_username d)) (Some (ud_email d))
           in (db', with_status (jsonify (user_schema_dump u)) 201)))"

definition get_user :: "database \<Rightarrow> int \<Rightarrow> response" where
  "get_user db i =
     (case get_or_404 db i of
        Inl r \<Rightarrow> r
      | Inr u \<Rightarrow> jsonify (user_schema_dump u))"

definition update_user ::
    "(string \<Rightarrow> bool) \<Rightarrow> database \<Rightarrow> int \<Rightarrow> json \<Rightarrow> database \<times> response" where
  "update_user fmt db i req =
     (case get_or_404 db i of
        Inl r \<Rightarrow> (db, r)
      | Inr u \<Rightarrow>
          (case user_schema_load fmt req of
             Inl errs \<Rightarrow> (db, validation_error errs)
           | Inr d \<Rightarrow>
               (let u' = u\<lparr>username := Some (ud_username d), email := Some (ud_email d)\<rparr>
                in (session_flush db u', jsonify (user_schema_dump u')))))"

definition delete_user :: "database \<Rightarrow> int \<Rightarrow> database \<times> response" where
  "delete_user db i =
     (case get_or_404 db i of
        Inl r \<Rightarrow> (db, r)
      | Inr u \<Rightarrow> (session_delete db u, \<lparr>status = 204, payload = Empty\<rparr>))"

subsection \<open>Well-formed tables and sample data\<close>

text \<open>
  The guarantees of the database for a table with a generated primary key: no two rows
  share an id, and every id in the table was generated before the counter's value.
\<close>

definition db_ok :: "database \<Rightarrow> bool" where
  "db_ok db \<longleftrightarrow> distinct (map user_id (rows db)) \<and> (\<forall>r \<in> set (rows db). user_id r < next_id db)"

text \<open>The invariant of the spec: every persisted row has a username and an email.\<close>

definition non_null :: "database \<Rightarrow> bool" where
  "non_null db \<longleftrightarrow> (\<forall>r \<in> set (rows db). username r \<noteq> None \<and> email r \<noteq> None)"

text \<open>A sample email format, to run the handlers on concrete requests.\<close>

definition at_format :: "string \<Rightarrow> bool" where
  "at_format s \<longleftrightarrow> CHR ''@'' \<in> set s"

definition sample_db :: database where
  "sample_db =
     \<lparr>rows = [\<lparr>user_id = 1, username = Some ''ann'', email = Some ''ann@example.org''\<rparr>,
              \<lparr>user_id = 3, username = Some ''bob'', email = Some ''bob@example.org''\<rparr>],
      next_id = 4\<rparr>"

definition ann_request :: json where
  "ann_request = JObj [(''username'', JStr ''anna''), (''email'', JStr ''anna@example.org'')]"

definition bad_request :: json where
  "bad_request = JObj [(''username'', JStr ''anna'')]"

section \<open>Properties of the handlers\<close>

subsection \<open>Lookups after a write\<close>

lemma query_get_None_iff: "query_get db i = None \<longleftrightarrow> i \<notin> user_id ` set (rows db)"
  by (auto simp: query_get_def find_None_iff)

lemma query_get_user_id: "query_get db i = Some u \<Longrightarrow> user_id u = i"
  by (auto simp: query_get_def find_Some_iff)

lemma get_or_404_absent: "i \<notin> user_id ` set (rows db) \<Longrightarrow> get_or_404 db i = Inl not_found"
  by (simp add: get_or_404_def query_get_None_iff [symmetric])

lemma get_or_404_present:
  "i \<in> user_id ` set (rows db) \<Longrightarrow> \<exists>u. get_or_404 db i = Inr u \<and> query_get db i = Some u \<and> user_id u = i"
  by (cases "query_get db i") (auto simp: get_or_404_def query_get_None_iff dest: query_get_user_id)

lemma find_map_update:
  "find (\<lambda>r. user_id r = i) rs = Some u \<Longrightarrow>
   find (\<lambda>r. user_id r = i)
     (map (\<lambda>r. if user_id r = i then r\<lparr>username := a, email := b\<rparr> else r) rs)
   = Some (u\<lparr>username := a, email := b\<rparr>)"
  by (induction rs) (auto split: if_splits)

lemma query_get_flush:
  assumes "query_get db i = Some u"
  shows "query_get (session_flush db (u\<lparr>username := a, email := b\<rparr>)) i
         = Some (u\<lparr>username := a, email := b\<rparr>)"
proof -
  have "user_id u = i" using assms by (rule query_get_user_id)
  with assms show ?thesis
    by (simp add: query_get_def session_flush_def find_map_update)
qed

lemma user_ids_flush: "map user_id (rows (session_flush db u)) = map user_id (rows db)"
  by (simp add: session_flush_def comp_def if_distrib)

lemma find_snoc_fresh:
  "i \<notin> user_id ` set rs \<Longrightarrow> user_id x = i \<Longrightarrow> find (\<lambda>r. user_id r = i) (rs @ [x]) = Some x"
  by (induction rs) auto

lemma query_get_add:
  assumes "next_id db \<notin> user_id ` set (rows db)"
  shows "query_get (fst (session_add db a b)) (next_id db)
         = Some \<lparr>user_id = next_id db, username = a, email = b\<rparr>"
  using assms by (simp add: query_get_def session_add_def Let_def find_snoc_fresh)

lemma db_ok_fresh: "db_ok db \<Longrightarrow> next_id db \<notin> user_id ` set (rows db)"
  by (auto simp: db_ok_def)

lemma user_schema_load_valid:
  assumes "user_schema_load fmt req = Inr d"
  shows "json_get req ''username'' = Some (JStr (ud_username d))"
    and "json_get req ''email'' = Some (JStr (ud_email d))"
    and "fmt (ud_email d)"
  using assms
  by (auto simp: user_schema_load_def json_get_def Let_def field_errors_def
      split: json.splits sum.splits list.splits option.splits if_splits
      elim!: load_string.elims load_email.elims)

subsection \<open>The invariants on the table\<close>

text \<open>
  The empty table is well formed and every write of a handler keeps it so; the same holds
  for the invariant of the spec when the written values are not null.
\<close>

lemma db_ok_empty: "db_ok empty_db"
  by (simp add: db_ok_def empty_db_def)

lemma db_ok_add: "db_ok db \<Longrightarrow> db_ok (fst (session_add db a b))"
  by (auto simp: db_ok_def session_add_def Let_def)

lemma db_ok_flush: "db_ok db \<Longrightarrow> db_ok (session_flush db u)"
  unfolding db_ok_def user_ids_flush
  by (auto simp: session_flush_def)

lemma db_ok_delete: "db_ok db \<Longrightarrow> db_ok (session_delete db u)"
  by (auto simp: db_ok_def session_delete_def distinct_map_filter)

lemma create_user_db_ok: "db_ok db \<Longrightarrow> db_ok (fst (create_user fmt db req))"
  by (simp add: create_user_def case_prod_unfold Let_def db_ok_add split: sum.splits)

lemma update_user_db_ok: "db_ok db \<Longrightarrow> db_ok (fst (update_user fmt db i req))"
  by (simp add: update_user_def Let_def db_ok_flush split: sum.splits)

lemma delete_user_db_ok: "db_ok db \<Longrightarrow> db_ok (fst (delete_user db i))"
  by (simp add: delete_user_def db_ok_delete split: sum.splits)

lemma non_null_empty: "non_null empty_db"
  by (simp add: non_null_def empty_db_def)

lemma non_null_add: "non_null db \<Longrightarrow> non_null (fst (session_add db (Some a) (Some b)))"
  by (simp add: non_null_def session_add_def Let_def)

lemma non_null_flush:
  "non_null db \<Longrightarrow> username u \<noteq> None \<Longrightarrow> email u \<noteq> None \<Longrightarrow> non_null (session_flush db u)"
  by (auto simp: non_null_def session_flush_def)

lemma non_null_delete: "non_null db \<Longrightarrow> non_null (session_delete db u)"
  by (simp add: non_null_def session_delete_def)

subsection \<open>Sample requests\<close>

lemma load_ann: "user_schema_load at_format ann_request = Inr \<lparr>ud_username = ''anna'', ud_email = ''anna@example.org''\<rparr>"
  by (simp add: user_schema_load_def ann_request_def at_format_def field_errors_def unknown_fields_def)

lemma load_bad: "user_schema_load at_format bad_request = Inl [(''email'', [''Missing data for required field.''])]"
  by (simp add: user_schema_load_def bad_request_def at_format_def field_errors_def unknown_fields_def)

lemma db_ok_sample: "db_ok sample_db"
  by (simp add: db_ok_def sample_db_def)

lemma non_null_sample: "non_null sample_db"
  by (simp add: non_null_def sample_db_def)

lemma sample_has_1: "1 \<in> user_id ` set (rows sample_db)"
  by (simp add: sample_db_def)

lemma sample_lacks_2: "2 \<notin> user_id ` set (rows sample_db)"
  by (simp add: sample_db_def)

subsection \<open>Validation and lookup in the update handler\<close>

text \<open>
  C1 (as the code has it): \<^verbatim>\<open>update_user\<close> first loads the row with \<^verbatim>\<open>get_or_404\<close> and only
  then validates the body. For a request whose body fails validation the response is the
  400 validation-error map when a row with the id exists, and the 404 response when none
  exists; the table is unchanged in both cases.
\<close>

theorem update_user_loads_then_validates:
  assumes "user_schema_load fmt req = Inl errs"
  shows "update_user fmt db i req =
           (db, if i \<in> user_id ` set (rows db)
                then \<lparr>status = 400, payload = Json (JObj [(''errors'', messages_json errs)])\<rparr>
                else \<lparr>status = 404, payload = Not_found_page\<rparr>)"
proof (cases "i \<in> user_id ` set (rows db)")
  case True
  then obtain u where "get_or_404 db i = Inr u"
    using get_or_404_present by blast
  with assms True show ?thesis
    by (simp add: update_user_def validation_error_def with_status_def jsonify_def)
next
  case False
  then show ?thesis
    by (simp add: update_user_def get_or_404_absent not_found_def)
qed

theorem update_user_loads_then_validates_witness:
  "user_schema_load at_format bad_request = Inl [(''email'', [''Missing data for required field.''])]
   \<and> update_user at_format sample_db 1 bad_request =
       (sample_db,
        \<lparr>status = 400,
         payload = Json (JObj [(''errors'',
                     JObj [(''email'', JArr [JStr ''Missing data for required field.''])])])\<rparr>)
   \<and> update_user at_format sample_db 3 bad_request =
       (sample_db,
        \<lparr>status = 400,
         payload = Json (JObj [(''errors'',
                     JObj [(''email'', JArr [JStr ''Missing data for required field.''])])])\<rparr>)
   \<and> update_user at_format sample_db 7 bad_request =
       (sample_db, \<lparr>status = 404, payload = Not_found_page\<rparr>)"
  using update_user_loads_then_validates [OF load_bad, of sample_db 1]
    update_user_loads_then_validates [OF load_bad, of sample_db 3]
    update_user_loads_then_validates [OF load_bad, of sample_db 7] load_bad
  by (simp add: messages_json_def sample_db_def)

text \<open>
  The claim as the spec states it, that a body failing validation is answered with the 400 error map
  even when no row has the id, fails: the sample table has no row 2 and the request below
  lacks the email field, yet the answer is 404.
\<close>

theorem update_user_absent_invalid_counterexample:
  "user_schema_load at_format bad_request = Inl [(''email'', [''Missing data for required field.''])]
   \<and> 2 \<notin> user_id ` set (rows sample_db)
   \<and> update_user at_format sample_db 2 bad_request =
       (sample_db, \<lparr>status = 404, payload = Not_found_page\<rparr>)
   \<and> status (snd (update_user at_format sample_db 2 bad_request)) \<noteq> 400"
  using load_bad sample_lacks_2
  by (simp add: update_user_def get_or_404_absent not_found_def)

text \<open>
  C10: atomicity of PUT on validation failure. For every \<^verbatim>\<open>PUT /users/{id}\<close> on an existing
  row whose body fails validation, the handler returns the 400 error map and the table,
  so the stored username and email, is unchanged.
\<close>

theorem update_user_invalid_atomic:
  assumes "i \<in> user_id ` set (rows db)" and "user_schema_load fmt req = Inl errs"
  shows "update_user fmt db i req =
           (db, \<lparr>status = 400, payload = Json (JObj [(''errors'', messages_json errs)])\<rparr>)"
proof -
  from assms(1) obtain u where "get_or_404 db i = Inr u"
    using get_or_404_present by blast
  with assms(2) show ?thesis
    by (simp add: update_user_def validation_error_def with_status_def jsonify_def)
qed

theorem update_user_invalid_atomic_witness:
  "1 \<in> user_id ` set (rows sample_db)
   \<and> user_schema_load at_format bad_request = Inl [(''email'', [''Missing data for required field.''])]
   \<and> update_user at_format sample_db 1 bad_request =
       (sample_db,
        \<lparr>status = 400,
         payload = Json (JObj [(''errors'',
                     JObj [(''email'', JArr [JStr ''Missing data for required field.''])])])\<rparr>)"
  using update_user_invalid_atomic [OF sample_has_1 load_bad] sample_has_1 load_bad
  by (simp add: messages_json_def)

subsection \<open>Creating a user\<close>

text \<open>
  C2: for every \<^verbatim>\<open>POST /users\<close> whose body is a valid (username, email) payload, the handler
  appends exactly one row and returns status 201 with a body that holds the username and
  email of the request and the newly assigned id, an id that no row had before. The body
  is valid when the schema accepts it; the table is well formed (\<open>db_ok\<close>).
\<close>

theorem create_user_valid:
  assumes "user_schema_load fmt req = Inr d" and "db_ok db"
  shows "create_user fmt db req =
           (db\<lparr>rows := rows db @ [\<lparr>user_id = next_id db, username = Some (ud_username d),
                                     email = Some (ud_email d)\<rparr>],
               next_id := next_id db + 1\<rparr>,
            \<lparr>status = 201,
             payload = Json (JObj [(''id'', JInt (next_id db)),
                                   (''username'', JStr (ud_username d)),
                                   (''email'', JStr (ud_email d))])\<rparr>)
         \<and> json_get req ''username'' = Some (JStr (ud_username d))
         \<and> json_get req ''email'' = Some (JStr (ud_email d))
         \<and> next_id db \<notin> user_id ` set (rows db)"
  using assms
  by (simp add: create_user_def session_add_def Let_def with_status_def jsonify_def
      user_schema_dump_def json_of_text_def user_schema_load_valid db_ok_fresh)

theorem create_user_valid_witness:
  "user_schema_load at_format ann_request = Inr \<lparr>ud_username = ''anna'', ud_email = ''anna@example.org''\<rparr>
   \<and> db_ok sample_db
   \<and> create_user at_format sample_db ann_request =
       (\<lparr>rows = [\<lparr>user_id = 1, username = Some ''ann'', email = Some ''ann@example.org''\<rparr>,
                 \<lparr>user_id = 3, username = Some ''bob'', email = Some ''bob@example.org''\<rparr>,
                 \<lparr>user_id = 4, username = Some ''anna'', email = Some ''anna@example.org''\<rparr>],
         next_id = 5\<rparr>,
        \<lparr>status = 201,
         payload = Json (JObj [(''id'', JInt 4), (''username'', JStr ''anna''),
                               (''email'', JStr ''anna@example.org'')])\<rparr>)"
  using create_user_valid [OF load_ann db_ok_sample] load_ann db_ok_sample
  by (simp add: sample_db_def)

text \<open>
  C3: for every \<^verbatim>\<open>POST /users\<close> whose body is an object without the field username or
  without the field email, the handler returns status 400 with an error map that has an
  entry for the missing field, and the table is unchanged.
\<close>

theorem create_user_missing_field:
  assumes "f = ''username'' \<or> f = ''email''" and "map_of kvs f = None"
  shows "\<exists>errs. map_of errs f = Some [''Missing data for required field.'']
           \<and> create_user fmt db (JObj kvs) =
               (db, \<lparr>status = 400, payload = Json (JObj [(''errors'', messages_json errs)])\<rparr>)"
proof -
  let ?u = "load_string (map_of kvs ''username'')"
  let ?e = "load_email fmt (map_of kvs ''email'')"
  let ?errs = "field_errors ''username'' ?u @ field_errors ''email'' ?e @ unknown_fields kvs"
  have missing: "map_of ?errs f = Some [''Missing data for required field.'']"
    using assms by (auto simp: field_errors_def split: sum.splits)
  have "?u = Inl [''Missing data for required field.'']
         \<or> ?e = Inl [''Missing data for required field.'']"
    using assms by auto
  then have "user_schema_load fmt (JObj kvs) = Inl ?errs"
    by (auto simp: user_schema_load_def Let_def field_errors_def split: sum.splits list.splits)
  then have "create_user fmt db (JObj kvs) =
      (db, \<lparr>status = 400, payload = Json (JObj [(''errors'', messages_json ?errs)])\<rparr>)"
    by (simp add: create_user_def validation_error_def with_status_def jsonify_def)
  with missing show ?thesis by blast
qed

theorem create_user_missing_field_witness:
  "(''email'' = ''username'' \<or> ''email'' = ''email'')
   \<and> map_of [(''username'', JStr ''anna'')] ''email'' = None
   \<and> (\<exists>errs. map_of errs ''email'' = Some [''Missing data for required field.'']
           \<and> create_user at_format sample_db (JObj [(''username'', JStr ''anna'')]) =
               (sample_db, \<lparr>status = 400, payload = Json (JObj [(''errors'', messages_json errs)])\<rparr>))"
proof -
  have a: "''email'' = ''username'' \<or> ''email'' = ''email''" by simp
  have b: "map_of [(''username'', JStr ''anna'')] ''email'' = None" by simp
  from create_user_missing_field [OF a b] a b show ?thesis by blast
qed

text \<open>
  C4: create-then-fetch round trip. For every user created by \<^verbatim>\<open>POST /users\<close> on a well
  formed table, \<^verbatim>\<open>GET /users/{id}\<close> with the id of the 201 response returns status 200 with
  the same id, username and email.
\<close>

theorem create_then_get:
  assumes "user_schema_load fmt req = Inr d" and "db_ok db"
    and "create_user fmt db req = (db', resp)"
  shows "resp = \<lparr>status = 201,
                 payload = Json (JObj [(''id'', JInt (next_id db)),
                                       (''username'', JStr (ud_username d)),
                                       (''email'', JStr (ud_email d))])\<rparr>
         \<and> get_user db' (next_id db) =
             \<lparr>status = 200,
              payload = Json (JObj [(''id'', JInt (next_id db)),
                                    (''username'', JStr (ud_username d)),
                                    (''email'', JStr (ud_email d))])\<rparr>"
proof -
  let ?a = "Some (ud_username d)" and ?b = "Some (ud_email d)"
  have fresh: "next_id db \<notin> user_id ` set (rows db)"
    using assms(2) by (rule db_ok_fresh)
  from assms(1,3) have db': "db' = fst (session_add db ?a ?b)"
    and resp: "resp = with_status (jsonify (user_schema_dump (snd (session_add db ?a ?b)))) 201"
    by (auto simp: create_user_def split: prod.splits)
  have "query_get db' (next_id db) = Some \<lparr>user_id = next_id db, username = ?a, email = ?b\<rparr>"
    unfolding db' using fresh by (rule query_get_add)
  then have "get_user db' (next_id db) =
      jsonify (user_schema_dump \<lparr>user_id = next_id db, username = ?a, email = ?b\<rparr>)"
    by (simp add: get_user_def get_or_404_def)
  with resp show ?thesis
    by (simp add: session_add_def Let_def with_status_def jsonify_def user_schema_dump_def
        json_of_text_def)
qed

theorem create_then_get_witness:
  "user_schema_load at_format ann_request = Inr \<lparr>ud_username = ''anna'', ud_email = ''anna@example.org''\<rparr>
   \<and> db_ok sample_db
   \<and> get_user (fst (create_user at_format sample_db ann_request)) 4 =
       \<lparr>status = 200,
        payload = Json (JObj [(''id'', JInt 4), (''username'', JStr ''anna''),
                              (''email'', JStr ''anna@example.org'')])\<rparr>"
  using create_then_get [OF load_ann db_ok_sample, of "fst (create_user at_format sample_db ann_request)"
      "snd (create_user at_format sample_db ann_request)"] load_ann db_ok_sample
  by (simp add: sample_db_def)

subsection \<open>Fetching, updating and deleting\<close>

text \<open>
  C6: for every id with no persisted row, \<^verbatim>\<open>GET /users/{id}\<close> returns status 404.
\<close>

theorem get_user_absent_404:
  assumes "i \<notin> user_id ` set (rows db)"
  shows "status (get_user db i) = 404"
  using assms by (simp add: get_user_def get_or_404_absent not_found_def)

theorem get_user_absent_404_witness:
  "2 \<notin> user_id ` set (rows sample_db) \<and> status (get_user sample_db 2) = 404"
  using get_user_absent_404 [OF sample_lacks_2] sample_lacks_2 by simp

text \<open>
  C5: for every \<^verbatim>\<open>PUT /users/{id}\<close> on an existing row with a valid body, the username and
  the email of that row are overwritten with the new values and persisted, the response
  is 200 with the updated user, and the \<^verbatim>\<open>GET /users/{id}\<close> that follows returns the new
  values.
\<close>

theorem update_user_valid:
  assumes "i \<in> user_id ` set (rows db)" and "user_schema_load fmt req = Inr d"
    and "update_user fmt db i req = (db', resp)"
  shows "query_get db' i =
           Some \<lparr>user_id = i, username = Some (ud_username d), email = Some (ud_email d)\<rparr>
         \<and> resp = \<lparr>status = 200,
                   payload = Json (JObj [(''id'', JInt i),
                                         (''username'', JStr (ud_username d)),
                                         (''email'', JStr (ud_email d))])\<rparr>
         \<and> get_user db' i = resp"
proof -
  let ?a = "Some (ud_username d)" and ?b = "Some (ud_email d)"
  from assms(1) obtain u where u: "get_or_404 db i = Inr u" "query_get db i = Some u" "user_id u = i"
    using get_or_404_present by blast
  let ?u' = "u\<lparr>username := ?a, email := ?b\<rparr>"
  have u': "?u' = \<lparr>user_id = i, username = ?a, email = ?b\<rparr>"
    using u(3) by simp
  from assms(2,3) u(1) have db': "db' = session_flush db ?u'"
    and resp: "resp = jsonify (user_schema_dump ?u')"
    by (simp_all add: update_user_def Let_def)
  have stored: "query_get db' i = Some ?u'"
    unfolding db' using u(2) by (rule query_get_flush)
  then have "get_user db' i = jsonify (user_schema_dump ?u')"
    by (simp add: get_user_def get_or_404_def)
  with stored resp show ?thesis
    unfolding u' by (simp add: jsonify_def user_schema_dump_def json_of_text_def)
qed

theorem update_user_valid_witness:
  "1 \<in> user_id ` set (rows sample_db)
   \<and> user_schema_load at_format ann_request = Inr \<lparr>ud_username = ''anna'', ud_email = ''anna@example.org''\<rparr>
   \<and> query_get (fst (update_user at_format sample_db 1 ann_request)) 1 =
       Some \<lparr>user_id = 1, username = Some ''anna'', email = Some ''anna@example.org''\<rparr>
   \<and> get_user (fst (update_user at_format sample_db 1 ann_request)) 1 =
       \<lparr>status = 200,
        payload = Json (JObj [(''id'', JInt 1), (''username'', JStr ''anna''),
                              (''email'', JStr ''anna@example.org'')])\<rparr>"
  using update_user_valid [OF sample_has_1 load_ann, of "fst (update_user at_format sample_db 1 ann_request)"
      "snd (update_user at_format sample_db 1 ann_request)"] sample_has_1 load_ann
  by simp

text \<open>
  C7: for every existing user, \<^verbatim>\<open>DELETE /users/{id}\<close> removes the row (and no other) and
  returns status 204 with an empty body, and the \<^verbatim>\<open>GET /users/{id}\<close> that follows returns
  404.
\<close>

theorem delete_user_existing:
  assumes "i \<in> user_id ` set (rows db)" and "delete_user db i = (db', resp)"
  shows "resp = \<lparr>status = 204, payload = Empty\<rparr>
         \<and> rows db' = filter (\<lambda>r. user_id r \<noteq> i) (rows db)
         \<and> i \<notin> user_id ` set (rows db')
         \<and> status (get_user db' i) = 404"
proof -
  from assms(1) obtain u where u: "get_or_404 db i = Inr u" "user_id u = i"
    using get_or_404_present by blast
  with assms(2) have db': "db' = session_delete db u" and resp: "resp = \<lparr>status = 204, payload = Empty\<rparr>"
    by (simp_all add: delete_user_def)
  have rows': "rows db' = filter (\<lambda>r. user_id r \<noteq> i) (rows db)"
    using u(2) by (simp add: db' session_delete_def)
  then have gone: "i \<notin> user_id ` set (rows db')" by auto
  then have "status (get_user db' i) = 404"
    by (simp add: get_user_def get_or_404_absent not_found_def)
  with resp rows' gone show ?thesis by simp
qed

theorem delete_user_existing_witness:
  "1 \<in> user_id ` set (rows sample_db)
   \<and> delete_user sample_db 1 =
       (\<lparr>rows = [\<lparr>user_id = 3, username = Some ''bob'', email = Some ''bob@example.org''\<rparr>],
         next_id = 4\<rparr>,
        \<lparr>status = 204, payload = Empty\<rparr>)
   \<and> status (get_user (fst (delete_user sample_db 1)) 1) = 404"
proof -
  obtain db' resp where eq: "delete_user sample_db 1 = (db', resp)"
    by (cases "delete_user sample_db 1")
  from delete_user_existing [OF sample_has_1 eq] have
    "resp = \<lparr>status = 204, payload = Empty\<rparr>"
    "rows db' = filter (\<lambda>r. user_id r \<noteq> 1) (rows sample_db)"
    "status (get_user db' 1) = 404"
    by simp_all
  moreover from eq have "next_id db' = 4"
    by (auto simp: delete_user_def session_delete_def sample_db_def split: sum.splits)
  ultimately show ?thesis
    using sample_has_1 eq by (simp add: sample_db_def database.equality)
qed

text \<open>
  C8: the id of a persisted user is immutable. For every \<^verbatim>\<open>PUT /users/{id}\<close>, whatever the
  body, the ids of the rows are what they were, row by row, the id counter is unchanged,
  and the rows with another id are untouched: only username and email of the addressed
  row can change.
\<close>

theorem update_user_keeps_ids:
  "map user_id (rows (fst (update_user fmt db i req))) = map user_id (rows db)
   \<and> next_id (fst (update_user fmt db i req)) = next_id db
   \<and> filter (\<lambda>r. user_id r \<noteq> i) (rows (fst (update_user fmt db i req)))
       = filter (\<lambda>r. user_id r \<noteq> i) (rows db)"
proof (cases "get_or_404 db i")
  case (Inl r)
  then show ?thesis by (simp add: update_user_def)
next
  case (Inr u)
  then have "user_id u = i"
    by (auto simp: get_or_404_def split: option.splits dest: query_get_user_id)
  moreover have "filter (\<lambda>r. user_id r \<noteq> i)
      (map (\<lambda>r. if user_id r = i then r\<lparr>username := a, email := b\<rparr> else r) rs)
      = filter (\<lambda>r. user_id r \<noteq> i) rs" for a b and rs :: "user list"
    by (induction rs) auto
  ultimately show ?thesis
    using Inr by (simp add: update_user_def Let_def user_ids_flush session_flush_def split: sum.splits)
qed

text \<open>
  C9: the invariant that every persisted row has a non-null username and email is
  preserved by the three writing endpoints (POST, PUT, DELETE), for every request.
\<close>

theorem handlers_preserve_non_null:
  assumes "non_null db"
  shows "non_null (fst (create_user fmt db req))
         \<and> non_null (fst (update_user fmt db i req))
         \<and> non_null (fst (delete_user db i))"
proof -
  have "non_null (fst (create_user fmt db req))"
    using assms by (simp add: create_user_def case_prod_unfold Let_def non_null_add split: sum.splits)
  moreover have "non_null (fst (update_user fmt db i req))"
    using assms by (simp add: update_user_def Let_def non_null_flush split: sum.splits)
  moreover have "non_null (fst (delete_user db i))"
    using assms by (simp add: delete_user_def non_null_delete split: sum.splits)
  ultimately show ?thesis by simp
qed

theorem handlers_preserve_non_null_witness:
  "non_null sample_db
   \<and> non_null (fst (create_user at_format sample_db ann_request))
   \<and> non_null (fst (update_user at_format sample_db 1 ann_request))
   \<and> non_null (fst (delete_user sample_db 1))"
  using handlers_preserve_non_null [OF non_null_sample, of at_format ann_request 1] non_null_sample
  by simp

end
